theory Spec2Isabelle
  imports Main
begin

section \<open>The packaging script \<open>setup.py\<close> of python-rust-util\<close>

text \<open>
  The repository is one Python script of five kinds of statement, in this order: four
  import statements (lines 3 to 7), two module-level assignments (lines 9 to 13), and one
  call of \<open>setuptools.setup\<close> with nine keyword arguments (lines 15 to 23), of which
  one, \<open>long_description\<close>, is computed: \<open>open('README.md').read()\<close>. Python
  executes the statements in order and stops at the first exception; it evaluates the
  keyword arguments from left to right and calls \<open>setup\<close> only when all of them have a
  value.

  The embedding makes the environment of the process and every effect of a run explicit.
  What is not code of the repository is a parameter of the run: the import system (what
  loading a module does and whether it fails), the file system, the encoding of the
  locale, and the behaviour of \<open>setup\<close>. The script is a function from these to the
  trace of events of the run, the module's variables at the end, and the outcome.
\<close>

subsection \<open>Values handed to \<open>setup\<close>\<close>

text \<open>
  Bytes are 8-bit characters; a Python string read from a file is a list of code points.
  The string literals of the script are ASCII and are written as HOL strings.
\<close>

type_synonym bytes = "char list"
type_synonym unicode = "nat list"

definition str :: "string \<Rightarrow> unicode" where
  "str s = map of_char s"

text \<open>
  \<open>Binding\<close> is the enumeration of \<open>setuptools_rust\<close>; its constructor
  \<open>RustExtension(target, path, ..., binding=Binding.PyO3, ...)\<close> takes the binding as an
  optional argument whose default is \<open>Binding.PyO3\<close>.
\<close>

datatype Binding = PyO3 | RustCPython | NoBinding | Exec

record rust_extension =
  target :: string
  path :: string
  binding :: Binding

definition RustExtension :: "string \<Rightarrow> string \<Rightarrow> Binding option \<Rightarrow> rust_extension" where
  "RustExtension tgt p b =
     \<lparr>target = tgt, path = p, binding = (case b of None \<Rightarrow> PyO3 | Some x \<Rightarrow> x)\<rparr>"

text \<open>The keyword arguments of the call of \<open>setup\<close>, in the order of the source.\<close>

record descriptor =
  name :: string
  author :: string
  author_email :: string
  description :: string
  long_description :: unicode
  version :: string
  rust_extensions :: "rust_extension list"
  setup_requires :: "string list"
  zip_safe :: bool

text \<open>Lines 9 to 13: the right-hand sides of the two assignments.\<close>

definition RUST_EXTENSIONS :: "rust_extension list" where
  "RUST_EXTENSIONS =
     [RustExtension ''rust_util'' ''rust_util/Cargo.toml'' (Some RustCPython)]"

definition SETUP_REQUIRES :: "string list" where
  "SETUP_REQUIRES = [''setuptools'', ''setuptools-rust'', ''wheel'']"

subsection \<open>Exceptions\<close>

text \<open>
  \<open>ModuleNotFoundError\<close> carries the module name; the subclasses of \<open>OSError\<close> carry
  the file name as it was passed, and \<open>OSError\<close> itself its class name too;
  \<open>UnicodeDecodeError\<close> is a \<open>ValueError\<close>, raised by \<open>read()\<close>; \<open>NameError\<close>
  carries the unbound name; \<open>Raised\<close> is any other exception, by class name and
  message.
\<close>

datatype exn =
  ModuleNotFoundError string
| FileNotFoundError string
| IsADirectoryError string
| PermissionError string
| OSError string string
| UnicodeDecodeError
| NameError string
| Raised string string

fun is_file_access_error :: "exn \<Rightarrow> bool" where
  "is_file_access_error (FileNotFoundError _) = True"
| "is_file_access_error (IsADirectoryError _) = True"
| "is_file_access_error (PermissionError _) = True"
| "is_file_access_error (OSError _ _) = True"
| "is_file_access_error _ = False"

subsection \<open>Effects and events\<close>

text \<open>
  An effect is something the process does to the world outside it. An event of a run is
  an import statement with the effects of loading its module, a module-level assignment,
  an effect of an expression of the script, the call of \<open>setup\<close> with its arguments, or
  an effect of \<open>setup\<close> during that call.
\<close>

datatype effect =
  Open_file string
| Read_file string
| Write_file string
| Network_access string
| Spawn_process string

datatype event =
  Import string "effect list"
| Assign string
| Script effect
| Handoff descriptor
| Orch effect

subsection \<open>The environment of a run\<close>

text \<open>
  A path names nothing, a directory, a regular file with its bytes and whether the process
  may read it, a file that opens but whose read fails in the operating system, or
  something that \<open>open\<close> refuses with another subclass of \<open>OSError\<close>.
\<close>

datatype node = Directory | Regular bool bytes | Damaged | Refused string

text \<open>
  The environment: the working directory of the process; the directory that holds the
  script, which is the first entry of the module search path; the decoder of the locale's
  preferred encoding (\<open>None\<close> where the bytes are not valid in it); the file system;
  and the import system, which gives for the first entry of the search path and a module
  name the effects of loading the module and the exception it ends with, if any.
\<close>

record env =
  cwd :: string
  script_dir :: string
  locale_decode :: "bytes \<Rightarrow> unicode option"
  files :: "string \<rightharpoonup> node"
  find_module :: "string \<Rightarrow> string \<Rightarrow> effect list \<times> exn option"

text \<open>
  \<open>setup\<close> is not part of the repository: a run takes its behaviour as a parameter, the
  effects of the call and the exception it raises, if any.
\<close>

type_synonym orchestrator = "descriptor \<Rightarrow> effect list \<times> exn option"

subsection \<open>The library functions the script calls\<close>

text \<open>
  A relative path is resolved against the working directory, an absolute one is kept. The
  working directory is an absolute path without a final slash, except the root.
\<close>

definition join :: "string \<Rightarrow> string \<Rightarrow> string" where
  "join d p = (if d \<noteq> [] \<and> last d = CHR ''/'' then d @ p else d @ ''/'' @ p)"

fun resolve :: "string \<Rightarrow> string \<Rightarrow> string" where
  "resolve d [] = d"
| "resolve d (c # cs) = (if c = CHR ''/'' then c # cs else join d (c # cs))"

text \<open>
  \<open>open(p)\<close> with the default mode \<open>'r'\<close>: a text-mode handle on the file, or an
  \<open>OSError\<close>. The empty path names no file.
\<close>

datatype handle = Data bytes | Faulty

definition open_file :: "env \<Rightarrow> string \<Rightarrow> exn + handle" where
  "open_file e p =
     (if p = [] then Inl (FileNotFoundError p)
      else case files e (resolve (cwd e) p) of
        None \<Rightarrow> Inl (FileNotFoundError p)
      | Some Directory \<Rightarrow> Inl (IsADirectoryError p)
      | Some (Regular r bs) \<Rightarrow> if r then Inr (Data bs) else Inl (PermissionError p)
      | Some Damaged \<Rightarrow> Inr Faulty
      | Some (Refused c) \<Rightarrow> Inl (OSError c p))"

text \<open>
  Text mode translates line endings on input (universal newlines): carriage return
  followed by line feed, and carriage return alone, become line feed.
\<close>

fun universal_newlines :: "unicode \<Rightarrow> unicode" where
  "universal_newlines [] = []"
| "universal_newlines [c] = [if c = 13 then 10 else c]"
| "universal_newlines (c # d # cs) =
     (if c = 13 \<and> d = 10 then 10 # universal_newlines cs
      else if c = 13 then 10 # universal_newlines (d # cs)
      else c # universal_newlines (d # cs))"

text \<open>
  \<open>read()\<close> on a text-mode handle: the bytes of the file, decoded in the locale's
  encoding, with line endings translated.
\<close>

definition read_all :: "env \<Rightarrow> string \<Rightarrow> handle \<Rightarrow> exn + unicode" where
  "read_all e p h =
     (case h of
        Faulty \<Rightarrow> Inl (OSError ''OSError'' p)
      | Data bs \<Rightarrow>
          (case locale_decode e bs of
             None \<Rightarrow> Inl UnicodeDecodeError
           | Some t \<Rightarrow> Inr (universal_newlines t)))"

subsection \<open>The script\<close>

text \<open>Lines 3 to 7: the modules of the import statements, in order.\<close>

definition imported_modules :: "string list" where
  "imported_modules = [''subprocess'', ''sys'', ''setuptools'', ''setuptools_rust'']"

text \<open>Import statements run in order; the first that raises ends the run.\<close>

fun import_all :: "env \<Rightarrow> string list \<Rightarrow> event list \<times> exn option" where
  "import_all e [] = ([], None)"
| "import_all e (m # ms) =
     (case find_module e (script_dir e) m of
        (fx, Some x) \<Rightarrow> ([Import m fx], Some x)
      | (fx, None) \<Rightarrow> (case import_all e ms of (evs, r) \<Rightarrow> (Import m fx # evs, r)))"

text \<open>The events of the import statements of the modules \<open>ms\<close>, when each is executed.\<close>

definition import_events :: "env \<Rightarrow> string list \<Rightarrow> event list" where
  "import_events e ms = map (\<lambda>m. Import m (fst (find_module e (script_dir e) m))) ms"

text \<open>Lines 9 to 13: the module's variables after the two assignments.\<close>

datatype val = Extensions "rust_extension list" | Strings "string list"

definition module_globals :: "string \<rightharpoonup> val" where
  "module_globals =
     (Map.empty(''RUST_EXTENSIONS'' \<mapsto> Extensions RUST_EXTENSIONS))
       (''SETUP_REQUIRES'' \<mapsto> Strings SETUP_REQUIRES)"

text \<open>Line 19: \<open>open('README.md').read()\<close>.\<close>

definition read_long_description :: "env \<Rightarrow> effect list \<times> (exn + unicode)" where
  "read_long_description e =
     (case open_file e ''README.md'' of
        Inl x \<Rightarrow> ([Open_file ''README.md''], Inl x)
      | Inr h \<Rightarrow> ([Open_file ''README.md'', Read_file ''README.md''],
                  read_all e ''README.md'' h))"

text \<open>
  Lines 15 to 23: the keyword arguments, given the value of line 19; lines 21 and 22 read
  the two variables.
\<close>

definition kwargs :: "rust_extension list \<Rightarrow> string list \<Rightarrow> unicode \<Rightarrow> descriptor" where
  "kwargs r s readme =
     \<lparr>name = ''rust_util'',
      author = ''Jake Curran'',
      author_email = ''jake@jakecurran.com'',
      description = ''Util package to enable Rust code as part of a Python project.'',
      long_description = readme,
      version = ''1.0'',
      rust_extensions = r,
      setup_requires = s,
      zip_safe = False\<rparr>"

definition setup_kwargs :: "(string \<rightharpoonup> val) \<Rightarrow> unicode \<Rightarrow> exn + descriptor" where
  "setup_kwargs g readme =
     (case g ''RUST_EXTENSIONS'' of
        Some (Extensions r) \<Rightarrow>
          (case g ''SETUP_REQUIRES'' of
             Some (Strings s) \<Rightarrow> Inr (kwargs r s readme)
           | _ \<Rightarrow> Inl (NameError ''SETUP_REQUIRES''))
      | _ \<Rightarrow> Inl (NameError ''RUST_EXTENSIONS''))"

text \<open>The result of a run.\<close>

record run =
  trace :: "event list"
  globals :: "string \<rightharpoonup> val"
  outcome :: "exn option"

text \<open>The whole script.\<close>

definition setup_py :: "env \<Rightarrow> orchestrator \<Rightarrow> run" where
  "setup_py e setup =
     (case import_all e imported_modules of
        (ims, Some x) \<Rightarrow> \<lparr>trace = ims, globals = Map.empty, outcome = Some x\<rparr>
      | (ims, None) \<Rightarrow>
          (case read_long_description e of
             (fx, Inl x) \<Rightarrow>
               \<lparr>trace = ims @ [Assign ''RUST_EXTENSIONS'', Assign ''SETUP_REQUIRES'']
                          @ map Script fx,
                globals = module_globals, outcome = Some x\<rparr>
           | (fx, Inr t) \<Rightarrow>
               (case setup_kwargs module_globals t of
                  Inl x \<Rightarrow>
                    \<lparr>trace = ims @ [Assign ''RUST_EXTENSIONS'', Assign ''SETUP_REQUIRES'']
                               @ map Script fx,
                     globals = module_globals, outcome = Some x\<rparr>
                | Inr d \<Rightarrow>
                    (case setup d of
                       (ofx, r) \<Rightarrow>
                         \<lparr>trace = ims @ [Assign ''RUST_EXTENSIONS'', Assign ''SETUP_REQUIRES'']
                                    @ map Script fx @ Handoff d # map Orch ofx,
                          globals = module_globals, outcome = r\<rparr>))))"

subsection \<open>Reading a trace\<close>

fun handoffs :: "event list \<Rightarrow> descriptor list" where
  "handoffs [] = []"
| "handoffs (Handoff d # tr) = d # handoffs tr"
| "handoffs (_ # tr) = handoffs tr"

fun script_effects :: "event list \<Rightarrow> effect list" where
  "script_effects [] = []"
| "script_effects (Script a # tr) = a # script_effects tr"
| "script_effects (_ # tr) = script_effects tr"

fun orch_effects :: "event list \<Rightarrow> effect list" where
  "orch_effects [] = []"
| "orch_effects (Orch a # tr) = a # orch_effects tr"
| "orch_effects (_ # tr) = orch_effects tr"

fun import_effects :: "event list \<Rightarrow> effect list" where
  "import_effects [] = []"
| "import_effects (Import m fx # tr) = fx @ import_effects tr"
| "import_effects (_ # tr) = import_effects tr"

fun imports_of :: "event list \<Rightarrow> string list" where
  "imports_of [] = []"
| "imports_of (Import m fx # tr) = m # imports_of tr"
| "imports_of (_ # tr) = imports_of tr"

fun assigns :: "event list \<Rightarrow> string list" where
  "assigns [] = []"
| "assigns (Assign v # tr) = v # assigns tr"
| "assigns (_ # tr) = assigns tr"

text \<open>The events of a trace before the first call of \<open>setup\<close>, and those after it.\<close>

fun before_handoff :: "event list \<Rightarrow> event list" where
  "before_handoff [] = []"
| "before_handoff (Handoff d # tr) = []"
| "before_handoff (ev # tr) = ev # before_handoff tr"

fun after_handoff :: "event list \<Rightarrow> event list" where
  "after_handoff [] = []"
| "after_handoff (Handoff d # tr) = tr"
| "after_handoff (ev # tr) = after_handoff tr"

text \<open>All effects of a trace, whoever performed them.\<close>

fun effects_of :: "event list \<Rightarrow> effect list" where
  "effects_of [] = []"
| "effects_of (Import m fx # tr) = fx @ effects_of tr"
| "effects_of (Script a # tr) = a # effects_of tr"
| "effects_of (Orch a # tr) = a # effects_of tr"
| "effects_of (_ # tr) = effects_of tr"

fun net_proc_write :: "effect \<Rightarrow> bool" where
  "net_proc_write (Write_file _) = True"
| "net_proc_write (Network_access _) = True"
| "net_proc_write (Spawn_process _) = True"
| "net_proc_write _ = False"

subsection \<open>Conditions on an environment\<close>

definition imports_succeed :: "env \<Rightarrow> bool" where
  "imports_succeed e =
     list_all (\<lambda>m. snd (find_module e (script_dir e) m) = None) imported_modules"

definition readme_path :: "env \<Rightarrow> string" where
  "readme_path e = resolve (cwd e) ''README.md''"

text \<open>Whether line 19 has a value: the file opens, is read and decodes.\<close>

fun readable_text :: "env \<Rightarrow> node option \<Rightarrow> bool" where
  "readable_text e (Some (Regular r bs)) = (r \<and> locale_decode e bs \<noteq> None)"
| "readable_text e _ = False"

subsection \<open>Sample environments and orchestrators\<close>

definition ascii_decode :: "bytes \<Rightarrow> unicode option" where
  "ascii_decode bs =
     (if list_all (\<lambda>b. (of_char b :: nat) < 128) bs then Some (map of_char bs) else None)"

definition latin1_decode :: "bytes \<Rightarrow> unicode option" where
  "latin1_decode bs = Some (map of_char bs)"

text \<open>
  Import systems: one that finds every module compiled, after a look into the script's
  directory; one that compiles \<open>setuptools\<close> and \<open>setuptools_rust\<close> on the way and
  writes the bytecode; one in which \<open>setuptools_rust\<close> is not installed.
\<close>

definition warm_import :: "string \<Rightarrow> string \<Rightarrow> effect list \<times> exn option" where
  "warm_import d m =
     ([Open_file (d @ ''/'' @ m @ ''.py''), Open_file (m @ ''.pyc''), Read_file (m @ ''.pyc'')],
      None)"

definition cold_import :: "string \<Rightarrow> string \<Rightarrow> effect list \<times> exn option" where
  "cold_import d m =
     (if m = ''setuptools'' \<or> m = ''setuptools_rust''
      then ([Open_file (d @ ''/'' @ m @ ''.py''), Open_file (m @ ''/__init__.py''),
             Read_file (m @ ''/__init__.py''), Write_file (m @ ''/__pycache__/__init__.pyc'')],
            None)
      else warm_import d m)"

definition no_rust_import :: "string \<Rightarrow> string \<Rightarrow> effect list \<times> exn option" where
  "no_rust_import d m =
     (if m = ''setuptools_rust''
      then ([Open_file (d @ ''/'' @ m @ ''.py'')], Some (ModuleNotFoundError m))
      else warm_import d m)"

definition env_T :: env where
  "env_T = \<lparr>cwd = ''/work'', script_dir = ''/work'', locale_decode = ascii_decode,
            files = map_of [(''/work/README.md'', Regular True ''T'')],
            find_module = warm_import\<rparr>"

definition env_T_elsewhere :: env where
  "env_T_elsewhere = \<lparr>cwd = ''/tmp/build'', script_dir = ''/opt/pkg'',
            locale_decode = latin1_decode,
            files = map_of [(''/tmp/build/README.md'', Regular True ''T''),
                            (''/opt/pkg/README.md'', Regular True ''other'')],
            find_module = cold_import\<rparr>"

definition env_crlf :: env where
  "env_crlf = env_T\<lparr>files := map_of [(''/work/README.md'',
                                        Regular True [CHR ''T'', CHR 0x0D, CHR 0x0A])]\<rparr>"

definition env_no_readme :: env where
  "env_no_readme = env_T\<lparr>files := map_of []\<rparr>"

definition env_locked :: env where
  "env_locked = env_T\<lparr>files := map_of [(''/work/README.md'', Regular False ''T'')]\<rparr>"

definition env_undecodable :: env where
  "env_undecodable = env_T\<lparr>files := map_of [(''/work/README.md'', Regular True [CHR 0xFF])]\<rparr>"

definition env_no_rust :: env where
  "env_no_rust = env_T\<lparr>find_module := no_rust_import\<rparr>"

definition env_no_rust_no_readme :: env where
  "env_no_rust_no_readme = env_no_readme\<lparr>find_module := no_rust_import\<rparr>"

definition env_cold :: env where
  "env_cold = env_T\<lparr>find_module := cold_import\<rparr>"

definition quiet_setup :: orchestrator where
  "quiet_setup d = ([], None)"

definition building_setup :: orchestrator where
  "building_setup d =
     ([Network_access ''pypi.org'', Spawn_process ''cargo'', Write_file ''dist/rust_util.whl''],
      None)"

definition failing_setup :: orchestrator where
  "failing_setup d =
     ([Spawn_process ''cargo''], Some (Raised ''CompileError'' ''cargo failed''))"

section \<open>Properties\<close>

subsection \<open>Traces of import statements\<close>

lemma import_events_Nil [simp]: "import_events e [] = []"
  by (simp add: import_events_def)

lemma import_events_Cons:
  "import_events e (m # ms) = Import m (fst (find_module e (script_dir e) m)) # import_events e ms"
  by (simp add: import_events_def)

lemma handoffs_imports [simp]: "handoffs (import_events e ms @ tr) = handoffs tr"
  by (induction ms) (simp_all add: import_events_Cons)

lemma script_effects_imports [simp]:
  "script_effects (import_events e ms @ tr) = script_effects tr"
  by (induction ms) (simp_all add: import_events_Cons)

lemma orch_effects_imports [simp]: "orch_effects (import_events e ms @ tr) = orch_effects tr"
  by (induction ms) (simp_all add: import_events_Cons)

lemma assigns_imports [simp]: "assigns (import_events e ms @ tr) = assigns tr"
  by (induction ms) (simp_all add: import_events_Cons)

lemma imports_of_imports [simp]: "imports_of (import_events e ms @ tr) = ms @ imports_of tr"
  by (induction ms) (simp_all add: import_events_Cons)

lemma import_effects_imports [simp]:
  "import_effects (import_events e ms @ tr) = import_effects (import_events e ms) @ import_effects tr"
  by (induction ms) (simp_all add: import_events_Cons)

lemma effects_of_imports [simp]:
  "effects_of (import_events e ms @ tr) = import_effects (import_events e ms) @ effects_of tr"
  by (induction ms) (simp_all add: import_events_Cons)

lemma before_handoff_imports [simp]:
  "before_handoff (import_events e ms @ tr) = import_events e ms @ before_handoff tr"
  by (induction ms) (simp_all add: import_events_Cons)

lemma after_handoff_imports [simp]:
  "after_handoff (import_events e ms @ tr) = after_handoff tr"
  by (induction ms) (simp_all add: import_events_Cons)

lemma imports_only [simp]:
  "handoffs (import_events e ms) = []"
  "script_effects (import_events e ms) = []"
  "orch_effects (import_events e ms) = []"
  "assigns (import_events e ms) = []"
  "imports_of (import_events e ms) = ms"
  "effects_of (import_events e ms) = import_effects (import_events e ms)"
  "before_handoff (import_events e ms) = import_events e ms"
  "after_handoff (import_events e ms) = []"
  using handoffs_imports [of e ms "[]"] script_effects_imports [of e ms "[]"]
    orch_effects_imports [of e ms "[]"] assigns_imports [of e ms "[]"]
    imports_of_imports [of e ms "[]"] effects_of_imports [of e ms "[]"]
    before_handoff_imports [of e ms "[]"] after_handoff_imports [of e ms "[]"]
  by simp_all

lemma handoffs_script [simp]: "handoffs (map Script fx @ tr) = handoffs tr"
  by (induction fx) simp_all

lemma script_effects_script [simp]:
  "script_effects (map Script fx @ tr) = fx @ script_effects tr"
  by (induction fx) simp_all

lemma orch_effects_script [simp]: "orch_effects (map Script fx @ tr) = orch_effects tr"
  by (induction fx) simp_all

lemma assigns_script [simp]: "assigns (map Script fx @ tr) = assigns tr"
  by (induction fx) simp_all

lemma imports_of_script [simp]: "imports_of (map Script fx @ tr) = imports_of tr"
  by (induction fx) simp_all

lemma import_effects_script [simp]: "import_effects (map Script fx @ tr) = import_effects tr"
  by (induction fx) simp_all

lemma effects_of_script [simp]: "effects_of (map Script fx @ tr) = fx @ effects_of tr"
  by (induction fx) simp_all

lemma before_handoff_script [simp]:
  "before_handoff (map Script fx @ tr) = map Script fx @ before_handoff tr"
  by (induction fx) simp_all

lemma after_handoff_script [simp]: "after_handoff (map Script fx @ tr) = after_handoff tr"
  by (induction fx) simp_all

lemma script_only [simp]:
  "handoffs (map Script fx) = []"
  "script_effects (map Script fx) = fx"
  "orch_effects (map Script fx) = []"
  "assigns (map Script fx) = []"
  "imports_of (map Script fx) = []"
  "import_effects (map Script fx) = []"
  "effects_of (map Script fx) = fx"
  "before_handoff (map Script fx) = map Script fx"
  "after_handoff (map Script fx) = []"
  using handoffs_script [of fx "[]"] script_effects_script [of fx "[]"]
    orch_effects_script [of fx "[]"] assigns_script [of fx "[]"]
    imports_of_script [of fx "[]"] import_effects_script [of fx "[]"]
    effects_of_script [of fx "[]"] before_handoff_script [of fx "[]"]
    after_handoff_script [of fx "[]"]
  by simp_all

lemma orch_only [simp]:
  "handoffs (map Orch fx) = []"
  "script_effects (map Orch fx) = []"
  "orch_effects (map Orch fx) = fx"
  "assigns (map Orch fx) = []"
  "imports_of (map Orch fx) = []"
  "import_effects (map Orch fx) = []"
  "effects_of (map Orch fx) = fx"
  by (induction fx) simp_all

subsection \<open>The import statements\<close>

lemma import_all_raises:
  "snd (find_module e (script_dir e) m) = Some x \<Longrightarrow>
   import_all e (m # ms) = ([Import m (fst (find_module e (script_dir e) m))], Some x)"
  by (cases "find_module e (script_dir e) m") simp

lemma import_all_continues:
  "snd (find_module e (script_dir e) m) = None \<Longrightarrow>
   import_all e (m # ms) =
     (Import m (fst (find_module e (script_dir e) m)) # fst (import_all e ms),
      snd (import_all e ms))"
  by (cases "find_module e (script_dir e) m") (simp split: prod.splits)

lemma import_all_succeeds:
  "list_all (\<lambda>m. snd (find_module e (script_dir e) m) = None) ms \<Longrightarrow>
   import_all e ms = (import_events e ms, None)"
  by (induction ms) (simp_all add: import_all_continues import_events_Cons del: import_all.simps(2))

lemma import_all_fails:
  "\<not> list_all (\<lambda>m. snd (find_module e (script_dir e) m) = None) ms \<Longrightarrow>
   \<exists>k x. import_all e ms = (import_events e (take (Suc k) ms), Some x) \<and> k < length ms"
proof (induction ms)
  case Nil
  then show ?case by simp
next
  case (Cons m ms)
  show ?case
  proof (cases "snd (find_module e (script_dir e) m)")
    case (Some x)
    then have "import_all e (m # ms) = (import_events e (take (Suc 0) (m # ms)), Some x)"
      by (simp add: import_all_raises import_events_Cons del: import_all.simps(2))
    then show ?thesis by blast
  next
    case None
    with Cons.prems have "\<not> list_all (\<lambda>m. snd (find_module e (script_dir e) m) = None) ms"
      by simp
    then obtain k x where "import_all e ms = (import_events e (take (Suc k) ms), Some x)"
      and "k < length ms"
      using Cons.IH by blast
    with None have "import_all e (m # ms) = (import_events e (take (Suc (Suc k)) (m # ms)), Some x)
        \<and> Suc k < length (m # ms)"
      by (simp add: import_all_continues import_events_Cons del: import_all.simps(2))
    then show ?thesis by blast
  qed
qed

subsection \<open>Line 19\<close>

lemma universal_newlines_id: "13 \<notin> set t \<Longrightarrow> universal_newlines t = t"
  by (induction t rule: universal_newlines.induct) simp_all

lemma readme_path_eq:
  "readme_path e = (if cwd e \<noteq> [] \<and> last (cwd e) = CHR ''/'' then cwd e @ ''README.md''
                    else cwd e @ ''/README.md'')"
  by (simp add: readme_path_def join_def)

lemma read_succeeds:
  assumes "files e (readme_path e) = Some (Regular True bs)" and "locale_decode e bs = Some t"
  shows "read_long_description e =
           ([Open_file ''README.md'', Read_file ''README.md''], Inr (universal_newlines t))"
  using assms by (simp add: read_long_description_def open_file_def read_all_def readme_path_def)

lemma readable_text_iff:
  "readable_text e n \<longleftrightarrow> (\<exists>bs t. n = Some (Regular True bs) \<and> locale_decode e bs = Some t)"
  by (cases "(e, n)" rule: readable_text.cases) auto

lemma read_fails:
  assumes "\<not> readable_text e (files e (readme_path e))"
  shows "\<exists>fx x. read_long_description e = (fx, Inl x)
           \<and> (fx = [Open_file ''README.md'']
               \<or> fx = [Open_file ''README.md'', Read_file ''README.md''])
           \<and> (is_file_access_error x
               \<or> x = UnicodeDecodeError
                  \<and> (\<exists>bs. files e (readme_path e) = Some (Regular True bs)
                           \<and> locale_decode e bs = None))"
proof (cases "files e (readme_path e)")
  case None
  then show ?thesis
    by (simp add: read_long_description_def open_file_def readme_path_def)
next
  case (Some n)
  with assms show ?thesis
    by (cases n)
       (auto simp add: read_long_description_def open_file_def read_all_def readme_path_def
          split: option.splits)
qed

lemma read_trace:
  "fst (read_long_description e) =
     (if isl (open_file e ''README.md'') then [Open_file ''README.md'']
      else [Open_file ''README.md'', Read_file ''README.md''])"
  by (simp add: read_long_description_def split: sum.splits)

lemma read_value_trace:
  "read_long_description e = (fx, Inr t) \<Longrightarrow>
   fx = [Open_file ''README.md'', Read_file ''README.md'']"
  by (auto simp add: read_long_description_def split: sum.splits)

lemma read_value_file:
  "read_long_description e = (fx, Inr t) \<Longrightarrow> readable_text e (files e (readme_path e))"
  using read_fails [of e] by (cases "readable_text e (files e (readme_path e))") auto

subsection \<open>The shapes of a run\<close>

lemma setup_kwargs_globals:
  "setup_kwargs module_globals t = Inr (kwargs RUST_EXTENSIONS SETUP_REQUIRES t)"
  by (simp add: setup_kwargs_def module_globals_def)

lemma run_import_failure:
  assumes "\<not> imports_succeed e"
  shows "\<exists>k x. k < length imported_modules
           \<and> setup_py e setup =
               \<lparr>trace = import_events e (take (Suc k) imported_modules),
                globals = Map.empty, outcome = Some x\<rparr>"
proof -
  obtain k x where "import_all e imported_modules
      = (import_events e (take (Suc k) imported_modules), Some x)"
    and "k < length imported_modules"
    using import_all_fails [of e imported_modules] assms
    unfolding imports_succeed_def by blast
  then show ?thesis
    by (auto simp add: setup_py_def)
qed

lemma run_read_failure:
  assumes "imports_succeed e" and "read_long_description e = (fx, Inl x)"
  shows "setup_py e setup =
           \<lparr>trace = import_events e imported_modules
                       @ [Assign ''RUST_EXTENSIONS'', Assign ''SETUP_REQUIRES''] @ map Script fx,
            globals = module_globals, outcome = Some x\<rparr>"
  using import_all_succeeds [of e imported_modules] assms
  by (simp add: setup_py_def imports_succeed_def)

lemma run_handoff:
  assumes "imports_succeed e" and "read_long_description e = (fx, Inr t)"
  shows "setup_py e setup =
           \<lparr>trace = import_events e imported_modules
                       @ [Assign ''RUST_EXTENSIONS'', Assign ''SETUP_REQUIRES''] @ map Script fx
                       @ Handoff (kwargs RUST_EXTENSIONS SETUP_REQUIRES t)
                         # map Orch (fst (setup (kwargs RUST_EXTENSIONS SETUP_REQUIRES t))),
            globals = module_globals,
            outcome = snd (setup (kwargs RUST_EXTENSIONS SETUP_REQUIRES t))\<rparr>"
  using import_all_succeeds [of e imported_modules] assms
  by (simp add: setup_py_def imports_succeed_def setup_kwargs_globals split: prod.splits)

lemma run_cases:
  obtains (import_failed) k x where "\<not> imports_succeed e" and "k < length imported_modules"
      and "setup_py e setup =
             \<lparr>trace = import_events e (take (Suc k) imported_modules),
              globals = Map.empty, outcome = Some x\<rparr>"
  | (read_failed) fx x where "imports_succeed e"
      and "\<not> readable_text e (files e (readme_path e))"
      and "read_long_description e = (fx, Inl x)"
      and "setup_py e setup =
             \<lparr>trace = import_events e imported_modules
                         @ [Assign ''RUST_EXTENSIONS'', Assign ''SETUP_REQUIRES''] @ map Script fx,
              globals = module_globals, outcome = Some x\<rparr>"
  | (handed) t where "imports_succeed e"
      and "readable_text e (files e (readme_path e))"
      and "read_long_description e = ([Open_file ''README.md'', Read_file ''README.md''], Inr t)"
      and "setup_py e setup =
             \<lparr>trace = import_events e imported_modules
                         @ [Assign ''RUST_EXTENSIONS'', Assign ''SETUP_REQUIRES'']
                         @ map Script [Open_file ''README.md'', Read_file ''README.md'']
                         @ Handoff (kwargs RUST_EXTENSIONS SETUP_REQUIRES t)
                           # map Orch (fst (setup (kwargs RUST_EXTENSIONS SETUP_REQUIRES t))),
              globals = module_globals,
              outcome = snd (setup (kwargs RUST_EXTENSIONS SETUP_REQUIRES t))\<rparr>"
proof (cases "imports_succeed e")
  case False
  then show ?thesis
    using run_import_failure [of e "setup"] import_failed by blast
next
  case True
  show ?thesis
  proof (cases "readable_text e (files e (readme_path e))")
    case False
    then obtain fx x where "read_long_description e = (fx, Inl x)"
      using read_fails [of e] by blast
    then show ?thesis
      using True False run_read_failure [of e fx x "setup"] read_failed by blast
  next
    case r: True
    then obtain bs t where "files e (readme_path e) = Some (Regular True bs)"
      and "locale_decode e bs = Some t"
      by (auto simp add: readable_text_iff)
    then have rd: "read_long_description e =
        ([Open_file ''README.md'', Read_file ''README.md''], Inr (universal_newlines t))"
      by (rule read_succeeds)
    show ?thesis
      using True r rd run_handoff [OF True rd, of "setup"] handed by blast
  qed
qed

subsection \<open>The sample environments\<close>

lemma sample_imports [simp]:
  "imports_succeed env_T" "imports_succeed env_T_elsewhere" "imports_succeed env_crlf"
  "imports_succeed env_no_readme" "imports_succeed env_locked"
  "imports_succeed env_undecodable" "imports_succeed env_cold"
  "\<not> imports_succeed env_no_rust" "\<not> imports_succeed env_no_rust_no_readme"
  by (simp_all add: imports_succeed_def imported_modules_def env_T_def env_T_elsewhere_def
        env_crlf_def env_no_readme_def env_locked_def env_undecodable_def env_cold_def
        env_no_rust_def env_no_rust_no_readme_def warm_import_def cold_import_def
        no_rust_import_def)

lemma sample_paths [simp]:
  "readme_path env_T = ''/work/README.md''"
  "readme_path env_T_elsewhere = ''/tmp/build/README.md''"
  "readme_path env_crlf = ''/work/README.md''"
  "readme_path env_no_readme = ''/work/README.md''"
  "readme_path env_locked = ''/work/README.md''"
  "readme_path env_undecodable = ''/work/README.md''"
  "readme_path env_cold = ''/work/README.md''"
  "readme_path env_no_rust = ''/work/README.md''"
  "readme_path env_no_rust_no_readme = ''/work/README.md''"
  by (simp_all add: readme_path_def join_def env_T_def env_T_elsewhere_def
        env_crlf_def env_no_readme_def env_locked_def env_undecodable_def env_cold_def
        env_no_rust_def env_no_rust_no_readme_def)

lemma sample_nodes [simp]:
  "files env_T ''/work/README.md'' = Some (Regular True ''T'')"
  "files env_T_elsewhere ''/tmp/build/README.md'' = Some (Regular True ''T'')"
  "files env_crlf ''/work/README.md'' = Some (Regular True [CHR ''T'', CHR 0x0D, CHR 0x0A])"
  "files env_no_readme ''/work/README.md'' = None"
  "files env_locked ''/work/README.md'' = Some (Regular False ''T'')"
  "files env_undecodable ''/work/README.md'' = Some (Regular True [CHR 0xFF])"
  "files env_cold ''/work/README.md'' = Some (Regular True ''T'')"
  "files env_no_rust ''/work/README.md'' = Some (Regular True ''T'')"
  "files env_no_rust_no_readme ''/work/README.md'' = None"
  by (simp_all add: env_T_def env_T_elsewhere_def
        env_crlf_def env_no_readme_def env_locked_def env_undecodable_def env_cold_def
        env_no_rust_def env_no_rust_no_readme_def)

lemma sample_decodes [simp]:
  "locale_decode env_T ''T'' = Some (str ''T'')"
  "locale_decode env_T_elsewhere ''T'' = Some (str ''T'')"
  "locale_decode env_cold ''T'' = Some (str ''T'')"
  "locale_decode env_no_rust ''T'' = Some (str ''T'')"
  "locale_decode env_crlf [CHR ''T'', CHR 0x0D, CHR 0x0A] = Some [84, 13, 10]"
  "locale_decode env_undecodable [CHR 0xFF] = None"
  by (simp_all add: env_T_def env_T_elsewhere_def env_crlf_def env_undecodable_def
        env_cold_def env_no_rust_def ascii_decode_def latin1_decode_def str_def)

lemma str_T [simp]: "str ''T'' = [84]" "universal_newlines [84] = [84]"
  by (simp_all add: str_def)

lemma readme_path_join: "readme_path e = join (cwd e) ''README.md''"
  by (simp add: readme_path_def)

lemma distinct_imported_modules: "distinct imported_modules"
  by (simp add: imported_modules_def)

subsection \<open>The descriptor\<close>

text \<open>
  Claim C1, as the source has it. In every environment in which the four import statements
  succeed and \<open>README.md\<close> is present, readable and decodes, the run hands \<open>setup\<close>
  one descriptor, and its fields are the literals of the source: name \<open>rust_util\<close>,
  author \<open>Jake Curran\<close>, author email \<open>jake@jakecurran.com\<close>, the description,
  version \<open>1.0\<close>, one extension with target \<open>rust_util\<close> and manifest path
  \<open>rust_util/Cargo.toml\<close>, the three build-time dependencies, and \<open>zip_safe\<close> false.
\<close>

theorem descriptor_fields_are_literals:
  assumes "imports_succeed e"
    and "files e (readme_path e) = Some (Regular True bs)"
    and "locale_decode e bs = Some t"
  shows "\<exists>d. handoffs (trace (setup_py e setup)) = [d]
           \<and> name d = ''rust_util''
           \<and> author d = ''Jake Curran''
           \<and> author_email d = ''jake@jakecurran.com''
           \<and> description d = ''Util package to enable Rust code as part of a Python project.''
           \<and> version d = ''1.0''
           \<and> map target (rust_extensions d) = [''rust_util'']
           \<and> map path (rust_extensions d) = [''rust_util/Cargo.toml'']
           \<and> setup_requires d = [''setuptools'', ''setuptools-rust'', ''wheel'']
           \<and> zip_safe d = False"
proof -
  have "handoffs (trace (setup_py e setup))
          = [kwargs RUST_EXTENSIONS SETUP_REQUIRES (universal_newlines t)]"
    by (simp add: run_handoff [OF assms(1) read_succeeds [OF assms(2,3)]])
  then show ?thesis
    by (simp add: kwargs_def RUST_EXTENSIONS_def RustExtension_def SETUP_REQUIRES_def)
qed

theorem descriptor_fields_are_literals_witness:
  "imports_succeed env_T
   \<and> files env_T (readme_path env_T) = Some (Regular True ''T'')
   \<and> locale_decode env_T ''T'' = Some (str ''T'')
   \<and> (\<exists>d. handoffs (trace (setup_py env_T quiet_setup)) = [d]
           \<and> name d = ''rust_util''
           \<and> author d = ''Jake Curran''
           \<and> author_email d = ''jake@jakecurran.com''
           \<and> description d = ''Util package to enable Rust code as part of a Python project.''
           \<and> version d = ''1.0''
           \<and> map target (rust_extensions d) = [''rust_util'']
           \<and> map path (rust_extensions d) = [''rust_util/Cargo.toml'']
           \<and> setup_requires d = [''setuptools'', ''setuptools-rust'', ''wheel'']
           \<and> zip_safe d = False)"
proof -
  have i: "imports_succeed env_T"
    by simp
  have h: "files env_T (readme_path env_T) = Some (Regular True ''T'')"
    by simp
  have k: "locale_decode env_T ''T'' = Some (str ''T'')"
    by simp
  show ?thesis
    using i h k descriptor_fields_are_literals [OF i h k, of quiet_setup] by blast
qed

text \<open>
  Claim C1, as the specification states it, fails where \<open>README.md\<close> is present and
  readable and \<open>setuptools_rust\<close> is not installed: line 7 raises, the file is never
  opened and no descriptor is produced.
\<close>

theorem descriptor_needs_imports_counterexample:
  "files env_no_rust (readme_path env_no_rust) = Some (Regular True ''T'')
   \<and> locale_decode env_no_rust ''T'' = Some (str ''T'')
   \<and> handoffs (trace (setup_py env_no_rust quiet_setup)) = []
   \<and> outcome (setup_py env_no_rust quiet_setup) = Some (ModuleNotFoundError ''setuptools_rust'')"
proof -
  have "handoffs (trace (setup_py env_no_rust quiet_setup)) = []
        \<and> outcome (setup_py env_no_rust quiet_setup)
            = Some (ModuleNotFoundError ''setuptools_rust'')"
    by (simp add: setup_py_def imported_modules_def env_no_rust_def env_T_def
          no_rust_import_def warm_import_def)
  then show ?thesis
    by simp
qed

text \<open>
  Claim C2, as the source has it. Where the imports succeed and \<open>README.md\<close> is readable,
  the long description handed to \<open>setup\<close> is the text that \<open>read()\<close> returns: the bytes
  of the file decoded in the locale's encoding, with every carriage return and line feed
  pair and every lone carriage return replaced by a line feed. The script changes nothing
  else: a text without carriage returns is handed over as it is, and the text \<open>T\<close> as
  \<open>T\<close>.
\<close>

theorem long_description_is_text_read:
  assumes "imports_succeed e"
    and "files e (readme_path e) = Some (Regular True bs)"
    and "locale_decode e bs = Some t"
  shows "map long_description (handoffs (trace (setup_py e setup))) = [universal_newlines t]
         \<and> (13 \<notin> set t \<longrightarrow>
              map long_description (handoffs (trace (setup_py e setup))) = [t])"
  by (simp add: run_handoff [OF assms(1) read_succeeds [OF assms(2,3)]] kwargs_def
        universal_newlines_id)

theorem long_description_is_text_read_witness:
  "imports_succeed env_T
   \<and> files env_T (readme_path env_T) = Some (Regular True ''T'')
   \<and> locale_decode env_T ''T'' = Some (str ''T'')
   \<and> 13 \<notin> set (str ''T'')
   \<and> map long_description (handoffs (trace (setup_py env_T building_setup))) = [str ''T'']"
proof -
  have i: "imports_succeed env_T"
    by simp
  have h: "files env_T (readme_path env_T) = Some (Regular True ''T'')"
    by simp
  have k: "locale_decode env_T ''T'' = Some (str ''T'')"
    by simp
  have n: "13 \<notin> set (str ''T'')"
    by simp
  show ?thesis
    using i h k n long_description_is_text_read [OF i h k, of building_setup] by blast
qed

text \<open>
  Claim C2, as the specification states it, fails for a file that holds \<open>T\<close>, carriage
  return, line feed: the long description handed over is \<open>T\<close>, line feed.
\<close>

theorem long_description_newline_counterexample:
  "files env_crlf (readme_path env_crlf) = Some (Regular True [CHR ''T'', CHR 0x0D, CHR 0x0A])
   \<and> locale_decode env_crlf [CHR ''T'', CHR 0x0D, CHR 0x0A] = Some [84, 13, 10]
   \<and> map long_description (handoffs (trace (setup_py env_crlf quiet_setup))) = [[84, 10]]
   \<and> map long_description (handoffs (trace (setup_py env_crlf quiet_setup))) \<noteq> [[84, 13, 10]]"
proof -
  have i: "imports_succeed env_crlf"
    by simp
  have h: "files env_crlf (readme_path env_crlf)
             = Some (Regular True [CHR ''T'', CHR 0x0D, CHR 0x0A])"
    by simp
  have k: "locale_decode env_crlf [CHR ''T'', CHR 0x0D, CHR 0x0A] = Some [84, 13, 10]"
    by simp
  show ?thesis
    using h k by (simp add: run_handoff [OF i read_succeeds [OF h k]] kwargs_def)
qed

subsection \<open>A missing or unreadable file\<close>

text \<open>
  Claim C3, as the source has it. In every environment in which the four import statements
  succeed and \<open>README.md\<close> is absent, cannot be opened, cannot be read or does not
  decode, the run ends with the exception of line 19: an \<open>OSError\<close> (for an absent file
  \<open>FileNotFoundError\<close>) from \<open>open\<close> or \<open>read()\<close>, or \<open>UnicodeDecodeError\<close>
  from \<open>read()\<close> for bytes that do not decode. The trace of the run is the import
  statements with what loading the modules does, the two assignments, and the opening
  (and reading) of the file: \<open>setup\<close> is not called and none of its effects takes
  place.
\<close>

theorem unreadable_readme_aborts_before_setup:
  assumes "imports_succeed e"
    and "\<not> readable_text e (files e (readme_path e))"
  shows "(\<exists>x. outcome (setup_py e setup) = Some x
              \<and> (is_file_access_error x
                  \<or> x = UnicodeDecodeError
                     \<and> (\<exists>bs. files e (readme_path e) = Some (Regular True bs)
                              \<and> locale_decode e bs = None)))
         \<and> (files e (readme_path e) = None \<longrightarrow>
               outcome (setup_py e setup) = Some (FileNotFoundError ''README.md''))
         \<and> (trace (setup_py e setup) =
               import_events e imported_modules
                 @ [Assign ''RUST_EXTENSIONS'', Assign ''SETUP_REQUIRES'',
                    Script (Open_file ''README.md'')]
             \<or> trace (setup_py e setup) =
               import_events e imported_modules
                 @ [Assign ''RUST_EXTENSIONS'', Assign ''SETUP_REQUIRES'',
                    Script (Open_file ''README.md''), Script (Read_file ''README.md'')])
         \<and> handoffs (trace (setup_py e setup)) = []
         \<and> orch_effects (trace (setup_py e setup)) = []"
proof -
  obtain fx x where rd: "read_long_description e = (fx, Inl x)"
    and fx: "fx = [Open_file ''README.md'']
             \<or> fx = [Open_file ''README.md'', Read_file ''README.md'']"
    and x: "is_file_access_error x
            \<or> x = UnicodeDecodeError
               \<and> (\<exists>bs. files e (readme_path e) = Some (Regular True bs)
                        \<and> locale_decode e bs = None)"
    using read_fails [OF assms(2)] by blast
  note run = run_read_failure [OF assms(1) rd, of "setup"]
  have absent: "files e (readme_path e) = None \<longrightarrow> x = FileNotFoundError ''README.md''"
    using rd by (auto simp add: read_long_description_def open_file_def readme_path_def)
  have "outcome (setup_py e setup) = Some x"
    by (simp add: run)
  moreover have "handoffs (trace (setup_py e setup)) = []"
    by (simp add: run)
  moreover have "orch_effects (trace (setup_py e setup)) = []"
    by (simp add: run)
  moreover have "trace (setup_py e setup) =
               import_events e imported_modules
                 @ [Assign ''RUST_EXTENSIONS'', Assign ''SETUP_REQUIRES'',
                    Script (Open_file ''README.md'')]
             \<or> trace (setup_py e setup) =
               import_events e imported_modules
                 @ [Assign ''RUST_EXTENSIONS'', Assign ''SETUP_REQUIRES'',
                    Script (Open_file ''README.md''), Script (Read_file ''README.md'')]"
    using fx by (auto simp add: run)
  ultimately show ?thesis
    using x absent by blast
qed

theorem unreadable_readme_aborts_before_setup_witness:
  "imports_succeed env_no_readme
   \<and> \<not> readable_text env_no_readme (files env_no_readme (readme_path env_no_readme))
   \<and> files env_no_readme (readme_path env_no_readme) = None
   \<and> outcome (setup_py env_no_readme building_setup) = Some (FileNotFoundError ''README.md'')
   \<and> handoffs (trace (setup_py env_no_readme building_setup)) = []
   \<and> orch_effects (trace (setup_py env_no_readme building_setup)) = []"
proof -
  have i: "imports_succeed env_no_readme"
    by simp
  have h: "\<not> readable_text env_no_readme (files env_no_readme (readme_path env_no_readme))"
    by simp
  have n: "files env_no_readme (readme_path env_no_readme) = None"
    by simp
  show ?thesis
    using i h n unreadable_readme_aborts_before_setup [OF i h, of building_setup] by blast
qed

text \<open>
  Claim C3, as the specification states it, fails in two environments. Where
  \<open>README.md\<close> is absent and \<open>setuptools_rust\<close> is not installed, the run ends at line
  7 with \<open>ModuleNotFoundError\<close>, which is no file-access error. Where \<open>README.md\<close>
  opens and its bytes do not decode, the run ends with \<open>UnicodeDecodeError\<close>, raised
  by \<open>read()\<close>.
\<close>

theorem unreadable_readme_other_error_counterexample:
  "files env_no_rust_no_readme (readme_path env_no_rust_no_readme) = None
   \<and> outcome (setup_py env_no_rust_no_readme quiet_setup)
       = Some (ModuleNotFoundError ''setuptools_rust'')
   \<and> \<not> is_file_access_error (ModuleNotFoundError ''setuptools_rust'')
   \<and> files env_undecodable (readme_path env_undecodable) = Some (Regular True [CHR 0xFF])
   \<and> locale_decode env_undecodable [CHR 0xFF] = None
   \<and> outcome (setup_py env_undecodable quiet_setup) = Some UnicodeDecodeError
   \<and> \<not> is_file_access_error UnicodeDecodeError"
proof -
  have a: "outcome (setup_py env_no_rust_no_readme quiet_setup)
             = Some (ModuleNotFoundError ''setuptools_rust'')"
    by (simp add: setup_py_def imported_modules_def env_no_rust_no_readme_def
          env_no_readme_def env_T_def no_rust_import_def warm_import_def)
  have i: "imports_succeed env_undecodable"
    by simp
  have "read_long_description env_undecodable
          = ([Open_file ''README.md'', Read_file ''README.md''], Inl UnicodeDecodeError)"
    by (simp add: read_long_description_def open_file_def read_all_def
          readme_path_join [symmetric])
  then have b: "outcome (setup_py env_undecodable quiet_setup) = Some UnicodeDecodeError"
    by (simp add: run_read_failure [OF i])
  show ?thesis
    using a b by simp
qed

subsection \<open>Determinism\<close>

text \<open>
  Claim C4. Two invocations in which the imports succeed and \<open>README.md\<close> holds the same
  readable bytes, decoded to the same text, each hand \<open>setup\<close> exactly one descriptor,
  and the two descriptors are equal, so equal in every field. Two invocations in one
  unchanged environment are the case of equal environments; the environments may as well
  differ in the working directory, the place of the script, the other files, what the
  imports do and what \<open>setup\<close> does.
\<close>

theorem descriptor_deterministic:
  assumes "imports_succeed e1" and "imports_succeed e2"
    and "files e1 (readme_path e1) = Some (Regular True bs)"
    and "files e2 (readme_path e2) = Some (Regular True bs)"
    and "locale_decode e1 bs = Some t" and "locale_decode e2 bs = Some t"
  shows "\<exists>d. handoffs (trace (setup_py e1 setup1)) = [d]
           \<and> handoffs (trace (setup_py e2 setup2)) = [d]"
proof -
  have "handoffs (trace (setup_py e1 setup1))
          = [kwargs RUST_EXTENSIONS SETUP_REQUIRES (universal_newlines t)]"
    by (simp add: run_handoff [OF assms(1) read_succeeds [OF assms(3,5)]])
  moreover have "handoffs (trace (setup_py e2 setup2))
          = [kwargs RUST_EXTENSIONS SETUP_REQUIRES (universal_newlines t)]"
    by (simp add: run_handoff [OF assms(2) read_succeeds [OF assms(4,6)]])
  ultimately show ?thesis
    by simp
qed

theorem descriptor_deterministic_witness:
  "imports_succeed env_T \<and> imports_succeed env_T_elsewhere
   \<and> files env_T (readme_path env_T) = Some (Regular True ''T'')
   \<and> files env_T_elsewhere (readme_path env_T_elsewhere) = Some (Regular True ''T'')
   \<and> locale_decode env_T ''T'' = Some (str ''T'')
   \<and> locale_decode env_T_elsewhere ''T'' = Some (str ''T'')
   \<and> (\<exists>d. handoffs (trace (setup_py env_T quiet_setup)) = [d]
           \<and> handoffs (trace (setup_py env_T_elsewhere building_setup)) = [d])
   \<and> (\<exists>d. handoffs (trace (setup_py env_T quiet_setup)) = [d]
           \<and> handoffs (trace (setup_py env_T failing_setup)) = [d])"
proof -
  have i1: "imports_succeed env_T" and i2: "imports_succeed env_T_elsewhere"
    by simp_all
  have h1: "files env_T (readme_path env_T) = Some (Regular True ''T'')"
    and h2: "files env_T_elsewhere (readme_path env_T_elsewhere) = Some (Regular True ''T'')"
    by simp_all
  have k1: "locale_decode env_T ''T'' = Some (str ''T'')"
    and k2: "locale_decode env_T_elsewhere ''T'' = Some (str ''T'')"
    by simp_all
  show ?thesis
    using i1 i2 h1 h2 k1 k2
      descriptor_deterministic [OF i1 i2 h1 h2 k1 k2, of quiet_setup building_setup]
      descriptor_deterministic [OF i1 i1 h1 h1 k1 k1, of quiet_setup failing_setup]
    by blast
qed

subsection \<open>Effects of the script\<close>

text \<open>
  Claim C5, as the source has it. Apart from what loading the imported modules does, the
  run reaches no network, starts no process and writes no file before \<open>setup\<close> is
  called: the effects of the script's own statements are the one opening of
  \<open>README.md\<close> and, when that succeeds, the one read of it, and none where an import
  fails. Before the call of \<open>setup\<close> every effect of the run is an effect of an import
  or one of these, and no effect of \<open>setup\<close> takes place.
\<close>

theorem script_statements_only_read_readme:
  "filter net_proc_write (script_effects (trace (setup_py e setup))) = []
   \<and> script_effects (trace (setup_py e setup))
       = (if imports_succeed e
          then if isl (open_file e ''README.md'') then [Open_file ''README.md'']
               else [Open_file ''README.md'', Read_file ''README.md'']
          else [])
   \<and> effects_of (before_handoff (trace (setup_py e setup)))
       = import_effects (trace (setup_py e setup)) @ script_effects (trace (setup_py e setup))
   \<and> orch_effects (before_handoff (trace (setup_py e setup))) = []"
proof (cases rule: run_cases [of e "setup"])
  case (import_failed k x)
  then show ?thesis
    by simp
next
  case (read_failed fx x)
  have "fx = fst (read_long_description e)"
    by (simp add: read_failed(3))
  then have fx: "fx = (if isl (open_file e ''README.md'') then [Open_file ''README.md'']
                       else [Open_file ''README.md'', Read_file ''README.md''])"
    by (simp add: read_trace)
  show ?thesis
    using read_failed(1) by (simp add: read_failed(4) fx)
next
  case (handed t)
  have "[Open_file ''README.md'', Read_file ''README.md''] = fst (read_long_description e)"
    by (simp add: handed(3))
  then have "\<not> isl (open_file e ''README.md'')"
    by (auto simp add: read_trace split: if_splits)
  then show ?thesis
    using handed(1) by (simp add: handed(4))
qed

theorem script_statements_only_read_readme_witness:
  "filter net_proc_write (script_effects (trace (setup_py env_cold building_setup))) = []
   \<and> script_effects (trace (setup_py env_cold building_setup))
       = [Open_file ''README.md'', Read_file ''README.md'']
   \<and> effects_of (before_handoff (trace (setup_py env_cold building_setup)))
       = import_effects (trace (setup_py env_cold building_setup))
           @ [Open_file ''README.md'', Read_file ''README.md'']
   \<and> orch_effects (before_handoff (trace (setup_py env_cold building_setup))) = []"
proof -
  have i: "imports_succeed env_cold"
    by simp
  have "open_file env_cold ''README.md'' = Inr (Data ''T'')"
    by (simp add: open_file_def readme_path_join [symmetric])
  then have o: "\<not> isl (open_file env_cold ''README.md'')"
    by simp
  show ?thesis
    using i o script_statements_only_read_readme [of env_cold building_setup] by simp
qed

text \<open>
  Claim C5, as the specification states it, fails where the bytecode of \<open>setuptools\<close>
  and \<open>setuptools_rust\<close> is not cached: the import statements of lines 6 and 7 write
  the compiled modules to files before \<open>setup\<close> is called.
\<close>

theorem construction_writes_files_counterexample:
  "filter net_proc_write
     (effects_of (before_handoff (trace (setup_py env_cold quiet_setup))))
   = [Write_file ''setuptools/__pycache__/__init__.pyc'',
      Write_file ''setuptools_rust/__pycache__/__init__.pyc'']"
proof -
  have i: "imports_succeed env_cold"
    by simp
  have h: "files env_cold (readme_path env_cold) = Some (Regular True ''T'')"
    by simp
  have k: "locale_decode env_cold ''T'' = Some (str ''T'')"
    by simp
  have "filter net_proc_write (import_effects (import_events env_cold imported_modules))
          = [Write_file ''setuptools/__pycache__/__init__.pyc'',
             Write_file ''setuptools_rust/__pycache__/__init__.pyc'']"
    by (simp add: import_events_def imported_modules_def env_cold_def env_T_def
          cold_import_def warm_import_def)
  then show ?thesis
    by (simp add: run_handoff [OF i read_succeeds [OF h k]])
qed

text \<open>
  Claim C8. In every run the script opens \<open>README.md\<close> at most once, and once where the
  imports succeed; it reads it at most once; no import statement, assignment or
  expression of the script is executed twice; \<open>setup\<close> is called at most once; and when
  line 19 fails, the failed opening or read is the last event of the run.
\<close>

theorem no_retry:
  "count_list (script_effects (trace (setup_py e setup))) (Open_file ''README.md'') \<le> 1
   \<and> count_list (script_effects (trace (setup_py e setup))) (Read_file ''README.md'') \<le> 1
   \<and> (imports_succeed e \<longrightarrow>
        count_list (script_effects (trace (setup_py e setup))) (Open_file ''README.md'') = 1)
   \<and> distinct (script_effects (trace (setup_py e setup)))
   \<and> distinct (imports_of (trace (setup_py e setup)))
   \<and> distinct (assigns (trace (setup_py e setup)))
   \<and> length (handoffs (trace (setup_py e setup))) \<le> 1
   \<and> (imports_succeed e \<and> \<not> readable_text e (files e (readme_path e)) \<longrightarrow>
        trace (setup_py e setup) =
          import_events e imported_modules
            @ [Assign ''RUST_EXTENSIONS'', Assign ''SETUP_REQUIRES'']
            @ map Script (fst (read_long_description e))
        \<and> (fst (read_long_description e) = [Open_file ''README.md'']
            \<or> fst (read_long_description e)
                = [Open_file ''README.md'', Read_file ''README.md'']))"
proof (cases rule: run_cases [of e "setup"])
  case (import_failed k x)
  then show ?thesis
    by (simp add: distinct_imported_modules)
next
  case (read_failed fx x)
  have fx: "fx = [Open_file ''README.md'']
            \<or> fx = [Open_file ''README.md'', Read_file ''README.md'']"
    using read_fails [OF read_failed(2)] read_failed(3) by auto
  show ?thesis
    using fx by (auto simp add: read_failed(3,4) distinct_imported_modules)
next
  case (handed t)
  then show ?thesis
    by (simp add: distinct_imported_modules)
qed

theorem no_retry_witness:
  "imports_succeed env_locked
   \<and> \<not> readable_text env_locked (files env_locked (readme_path env_locked))
   \<and> count_list (script_effects (trace (setup_py env_locked building_setup)))
        (Open_file ''README.md'') = 1
   \<and> distinct (script_effects (trace (setup_py env_locked building_setup)))
   \<and> length (handoffs (trace (setup_py env_locked building_setup))) \<le> 1
   \<and> trace (setup_py env_locked building_setup) =
        import_events env_locked imported_modules
          @ [Assign ''RUST_EXTENSIONS'', Assign ''SETUP_REQUIRES'']
          @ map Script (fst (read_long_description env_locked))
   \<and> fst (read_long_description env_locked) = [Open_file ''README.md'']"
proof -
  have i: "imports_succeed env_locked"
    by simp
  have h: "\<not> readable_text env_locked (files env_locked (readme_path env_locked))"
    by simp
  have r: "fst (read_long_description env_locked) = [Open_file ''README.md'']"
    by (simp add: read_long_description_def open_file_def readme_path_join [symmetric])
  show ?thesis
    using i h r no_retry [of env_locked building_setup] by blast
qed

subsection \<open>The call of \<open>setup\<close>\<close>

text \<open>
  Claim C6, as the source has it. In a run in which the imports succeed and \<open>README.md\<close>
  is readable and decodes, the descriptor is built once and \<open>setup\<close> is called once with
  it. No field of it is changed after it is built: the two variables are assigned once
  each, before the arguments are evaluated; no statement of the script stands between the
  evaluation of the arguments and the call, or after the call, where the events are those
  of \<open>setup\<close>; and at the end of the run the two variables hold the values that were
  handed over. In every other run no descriptor is built and \<open>setup\<close> is not called. So
  \<open>setup\<close> is called at most once in every run.
\<close>

theorem handed_off_once_when_readable:
  "length (handoffs (trace (setup_py e setup))) \<le> 1
   \<and> (imports_succeed e \<and> files e (readme_path e) = Some (Regular True bs)
        \<and> locale_decode e bs = Some t \<longrightarrow>
        handoffs (trace (setup_py e setup))
          = [kwargs RUST_EXTENSIONS SETUP_REQUIRES (universal_newlines t)]
        \<and> before_handoff (trace (setup_py e setup))
            = import_events e imported_modules
                @ [Assign ''RUST_EXTENSIONS'', Assign ''SETUP_REQUIRES'',
                   Script (Open_file ''README.md''), Script (Read_file ''README.md'')]
        \<and> after_handoff (trace (setup_py e setup))
            = map Orch (fst (setup (kwargs RUST_EXTENSIONS SETUP_REQUIRES (universal_newlines t))))
        \<and> assigns (trace (setup_py e setup)) = [''RUST_EXTENSIONS'', ''SETUP_REQUIRES'']
        \<and> globals (setup_py e setup) ''RUST_EXTENSIONS''
            = Some (Extensions (rust_extensions
                (kwargs RUST_EXTENSIONS SETUP_REQUIRES (universal_newlines t))))
        \<and> globals (setup_py e setup) ''SETUP_REQUIRES''
            = Some (Strings (setup_requires
                (kwargs RUST_EXTENSIONS SETUP_REQUIRES (universal_newlines t)))))
   \<and> (\<not> (imports_succeed e \<and> readable_text e (files e (readme_path e))) \<longrightarrow>
        handoffs (trace (setup_py e setup)) = [])"
proof (cases rule: run_cases [of e "setup"])
  case (import_failed k x)
  then show ?thesis
    by simp
next
  case (read_failed fx x)
  then show ?thesis
    by (auto simp add: readable_text_iff)
next
  case (handed u)
  have "imports_succeed e \<and> files e (readme_path e) = Some (Regular True bs)
        \<and> locale_decode e bs = Some t \<longrightarrow> u = universal_newlines t"
    using handed(3) read_succeeds [of e bs t] by auto
  then show ?thesis
    using handed(1,2) by (auto simp add: handed(4) kwargs_def module_globals_def)
qed

theorem handed_off_once_when_readable_witness:
  "imports_succeed env_T
   \<and> files env_T (readme_path env_T) = Some (Regular True ''T'')
   \<and> locale_decode env_T ''T'' = Some (str ''T'')
   \<and> handoffs (trace (setup_py env_T building_setup))
       = [kwargs RUST_EXTENSIONS SETUP_REQUIRES (str ''T'')]
   \<and> after_handoff (trace (setup_py env_T building_setup))
       = map Orch (fst (building_setup (kwargs RUST_EXTENSIONS SETUP_REQUIRES (str ''T''))))
   \<and> globals (setup_py env_T building_setup) ''SETUP_REQUIRES''
       = Some (Strings (setup_requires (kwargs RUST_EXTENSIONS SETUP_REQUIRES (str ''T''))))
   \<and> \<not> (imports_succeed env_locked
          \<and> readable_text env_locked (files env_locked (readme_path env_locked)))
   \<and> handoffs (trace (setup_py env_locked building_setup)) = []"
proof -
  have i: "imports_succeed env_T"
    by simp
  have h: "files env_T (readme_path env_T) = Some (Regular True ''T'')"
    by simp
  have k: "locale_decode env_T ''T'' = Some (str ''T'')"
    by simp
  have u: "universal_newlines (str ''T'') = str ''T''"
    by simp
  have l: "\<not> (imports_succeed env_locked
          \<and> readable_text env_locked (files env_locked (readme_path env_locked)))"
    by simp
  show ?thesis
    using i h k l
      handed_off_once_when_readable [of env_T building_setup "''T''" "str ''T''"]
      handed_off_once_when_readable [of env_locked building_setup "''T''" "str ''T''"]
    unfolding u by blast
qed

text \<open>
  Claim C6, as the specification states it, fails where \<open>README.md\<close> is missing: in that
  run \<open>setup\<close> is called zero times, not once.
\<close>

theorem handed_off_once_counterexample:
  "length (handoffs (trace (setup_py env_no_readme quiet_setup))) \<noteq> 1"
proof -
  have i: "imports_succeed env_no_readme"
    by simp
  have "read_long_description env_no_readme
          = ([Open_file ''README.md''], Inl (FileNotFoundError ''README.md''))"
    by (simp add: read_long_description_def open_file_def readme_path_join [symmetric])
  then show ?thesis
    by (simp add: run_read_failure [OF i])
qed

text \<open>
  Claim C7. The script has no handler: when \<open>setup\<close> is called and raises, whatever the
  exception is, the run ends with that same exception; so it does in every run in which
  the imports succeed and \<open>README.md\<close> is readable.
\<close>

theorem setup_errors_propagate:
  "(imports_succeed e \<and> files e (readme_path e) = Some (Regular True bs)
      \<and> locale_decode e bs = Some t
      \<and> snd (setup (kwargs RUST_EXTENSIONS SETUP_REQUIRES (universal_newlines t))) = Some x
     \<longrightarrow> outcome (setup_py e setup) = Some x)
   \<and> (d \<in> set (handoffs (trace (setup_py e setup))) \<and> snd (setup d) = Some y
     \<longrightarrow> outcome (setup_py e setup) = Some y)"
proof (cases rule: run_cases [of e "setup"])
  case (import_failed k x)
  then show ?thesis
    by simp
next
  case (read_failed fx x)
  then show ?thesis
    by (auto simp add: readable_text_iff)
next
  case (handed u)
  have "imports_succeed e \<and> files e (readme_path e) = Some (Regular True bs)
        \<and> locale_decode e bs = Some t \<longrightarrow> u = universal_newlines t"
    using handed(3) read_succeeds [of e bs t] by auto
  then show ?thesis
    by (auto simp add: handed(4))
qed

theorem setup_errors_propagate_witness:
  "imports_succeed env_T
   \<and> files env_T (readme_path env_T) = Some (Regular True ''T'')
   \<and> locale_decode env_T ''T'' = Some (str ''T'')
   \<and> snd (failing_setup (kwargs RUST_EXTENSIONS SETUP_REQUIRES (universal_newlines (str ''T''))))
       = Some (Raised ''CompileError'' ''cargo failed'')
   \<and> outcome (setup_py env_T failing_setup) = Some (Raised ''CompileError'' ''cargo failed'')"
proof -
  have i: "imports_succeed env_T"
    by simp
  have h: "files env_T (readme_path env_T) = Some (Regular True ''T'')"
    by simp
  have k: "locale_decode env_T ''T'' = Some (str ''T'')"
    by simp
  have f: "snd (failing_setup (kwargs RUST_EXTENSIONS SETUP_REQUIRES
                  (universal_newlines (str ''T''))))
             = Some (Raised ''CompileError'' ''cargo failed'')"
    by (simp add: failing_setup_def)
  show ?thesis
    using i h k f
      setup_errors_propagate [of env_T "''T''" "str ''T''" failing_setup
        "Raised ''CompileError'' ''cargo failed''"]
    by blast
qed

subsection \<open>The extension and the path of the resource\<close>

text \<open>
  Claim C9. Every descriptor handed to \<open>setup\<close> carries one extension, with target
  \<open>rust_util\<close>, manifest path \<open>rust_util/Cargo.toml\<close> and binding \<open>RustCPython\<close>;
  the binding is passed explicitly and is not the one \<open>RustExtension\<close> takes when none is
  passed.
\<close>

theorem extension_binding_is_rust_cpython:
  assumes "d \<in> set (handoffs (trace (setup_py e setup)))"
  shows "rust_extensions d =
           [\<lparr>target = ''rust_util'', path = ''rust_util/Cargo.toml'', binding = RustCPython\<rparr>]
         \<and> RUST_EXTENSIONS \<noteq> [RustExtension ''rust_util'' ''rust_util/Cargo.toml'' None]"
proof (cases rule: run_cases [of e "setup"])
  case (import_failed k x)
  with assms show ?thesis
    by simp
next
  case (read_failed fx x)
  with assms show ?thesis
    by simp
next
  case (handed t)
  with assms have "d = kwargs RUST_EXTENSIONS SETUP_REQUIRES t"
    by simp
  then show ?thesis
    by (simp add: kwargs_def RUST_EXTENSIONS_def RustExtension_def)
qed

theorem extension_binding_is_rust_cpython_witness:
  "kwargs RUST_EXTENSIONS SETUP_REQUIRES (str ''T'')
     \<in> set (handoffs (trace (setup_py env_T building_setup)))
   \<and> rust_extensions (kwargs RUST_EXTENSIONS SETUP_REQUIRES (str ''T'')) =
       [\<lparr>target = ''rust_util'', path = ''rust_util/Cargo.toml'', binding = RustCPython\<rparr>]"
proof -
  have i: "imports_succeed env_T"
    by simp
  have h: "files env_T (readme_path env_T) = Some (Regular True ''T'')"
    by simp
  have k: "locale_decode env_T ''T'' = Some (str ''T'')"
    by simp
  have m: "kwargs RUST_EXTENSIONS SETUP_REQUIRES (str ''T'')
             \<in> set (handoffs (trace (setup_py env_T building_setup)))"
    by (simp add: run_handoff [OF i read_succeeds [OF h k]])
  show ?thesis
    using m extension_binding_is_rust_cpython [OF m] by blast
qed

text \<open>
  Claim C10. The script passes \<open>open\<close> the relative path \<open>README.md\<close>, which names the
  file of that name in the working directory of the process. Where the imports succeed,
  the long description is the text of that file; in another working directory the same
  script, in the same file system, fails when that directory holds no \<open>README.md\<close> and
  hands over another text when it holds another one; and moving the script, which changes
  where the imports look first, changes nothing in the long description as long as the
  imports succeed.
\<close>

theorem readme_resolved_against_cwd:
  assumes "imports_succeed e"
    and "files e (join (cwd e) ''README.md'') = Some (Regular True bs)"
    and "locale_decode e bs = Some t"
    and "files e (join c ''README.md'') = None"
    and "files e (join c' ''README.md'') = Some (Regular True bs')"
    and "locale_decode e bs' = Some t'"
    and "imports_succeed (e\<lparr>script_dir := s\<rparr>)"
  shows "script_effects (trace (setup_py e setup))
           = [Open_file ''README.md'', Read_file ''README.md'']
         \<and> map long_description (handoffs (trace (setup_py e setup))) = [universal_newlines t]
         \<and> outcome (setup_py (e\<lparr>cwd := c\<rparr>) setup) = Some (FileNotFoundError ''README.md'')
         \<and> handoffs (trace (setup_py (e\<lparr>cwd := c\<rparr>) setup)) = []
         \<and> map long_description (handoffs (trace (setup_py (e\<lparr>cwd := c'\<rparr>) setup)))
             = [universal_newlines t']
         \<and> map long_description (handoffs (trace (setup_py (e\<lparr>script_dir := s\<rparr>) setup)))
             = [universal_newlines t]"
proof -
  have r0: "read_long_description e
      = ([Open_file ''README.md'', Read_file ''README.md''], Inr (universal_newlines t))"
    using assms(2,3) by (intro read_succeeds) (simp_all add: readme_path_join)
  have i1: "imports_succeed (e\<lparr>cwd := c\<rparr>)" and i2: "imports_succeed (e\<lparr>cwd := c'\<rparr>)"
    using assms(1) by (simp_all add: imports_succeed_def)
  have r1: "read_long_description (e\<lparr>cwd := c\<rparr>)
      = ([Open_file ''README.md''], Inl (FileNotFoundError ''README.md''))"
    using assms(4) by (simp add: read_long_description_def open_file_def)
  have r2: "read_long_description (e\<lparr>cwd := c'\<rparr>)
      = ([Open_file ''README.md'', Read_file ''README.md''], Inr (universal_newlines t'))"
    using assms(5,6) by (intro read_succeeds) (simp_all add: readme_path_join)
  have r3: "read_long_description (e\<lparr>script_dir := s\<rparr>)
      = ([Open_file ''README.md'', Read_file ''README.md''], Inr (universal_newlines t))"
    using assms(2,3) by (intro read_succeeds) (simp_all add: readme_path_join)
  show ?thesis
    by (simp add: run_handoff [OF assms(1) r0] run_read_failure [OF i1 r1]
          run_handoff [OF i2 r2] run_handoff [OF assms(7) r3] kwargs_def)
qed

theorem readme_resolved_against_cwd_witness:
  "imports_succeed env_T_elsewhere
   \<and> cwd env_T_elsewhere = ''/tmp/build'' \<and> script_dir env_T_elsewhere = ''/opt/pkg''
   \<and> files env_T_elsewhere (join (cwd env_T_elsewhere) ''README.md'') = Some (Regular True ''T'')
   \<and> files env_T_elsewhere (join ''/srv'' ''README.md'') = None
   \<and> files env_T_elsewhere (join ''/opt/pkg'' ''README.md'') = Some (Regular True ''other'')
   \<and> map long_description (handoffs (trace (setup_py env_T_elsewhere quiet_setup)))
       = [str ''T'']
   \<and> outcome (setup_py (env_T_elsewhere\<lparr>cwd := ''/srv''\<rparr>) quiet_setup)
       = Some (FileNotFoundError ''README.md'')
   \<and> map long_description
         (handoffs (trace (setup_py (env_T_elsewhere\<lparr>cwd := ''/opt/pkg''\<rparr>) quiet_setup)))
       = [str ''other'']
   \<and> map long_description
         (handoffs (trace (setup_py (env_T_elsewhere\<lparr>script_dir := ''/srv''\<rparr>) quiet_setup)))
       = [str ''T'']"
proof -
  have i: "imports_succeed env_T_elsewhere"
    by simp
  have d: "cwd env_T_elsewhere = ''/tmp/build''" "script_dir env_T_elsewhere = ''/opt/pkg''"
    by (simp_all add: env_T_elsewhere_def)
  have a: "files env_T_elsewhere (join (cwd env_T_elsewhere) ''README.md'')
             = Some (Regular True ''T'')"
    by (simp add: readme_path_join [symmetric])
  have k: "locale_decode env_T_elsewhere ''T'' = Some (str ''T'')"
    by simp
  have b: "files env_T_elsewhere (join ''/srv'' ''README.md'') = None"
    by (simp add: join_def env_T_elsewhere_def)
  have c: "files env_T_elsewhere (join ''/opt/pkg'' ''README.md'')
             = Some (Regular True ''other'')"
    by (simp add: join_def env_T_elsewhere_def)
  have k': "locale_decode env_T_elsewhere ''other'' = Some (str ''other'')"
    by (simp add: env_T_elsewhere_def latin1_decode_def str_def)
  have j: "imports_succeed (env_T_elsewhere\<lparr>script_dir := ''/srv''\<rparr>)"
    by (simp add: imports_succeed_def imported_modules_def env_T_elsewhere_def
          cold_import_def warm_import_def)
  have u: "universal_newlines (str ''T'') = str ''T''"
    "universal_newlines (str ''other'') = str ''other''"
    by (simp_all add: str_def)
  show ?thesis
    using i d a b c
      readme_resolved_against_cwd [OF i a k b c k' j, of quiet_setup]
    unfolding u by blast
qed

end
